theory Spec2Isabelle
  imports Main "HOL-Library.Word"
begin

section \<open>Stream configuration\<close>

text \<open>
  The decoder of \<^verbatim>\<open>src/codec/gstDecoder.cpp\<close> is embedded as a record of its members and
  one function per method. The types \<^verbatim>\<open>URI\<close> and \<^verbatim>\<open>videoOptions\<close> are declared outside
  the source file; the records below carry exactly the members the source file reads or
  writes.
\<close>

type_synonym handle = nat

record URI =
  uri_string :: string
  protocol :: string
  path :: string
  extension :: string
  port :: int

datatype Codec =
  CODEC_UNKNOWN | CODEC_RAW | CODEC_H264 | CODEC_H265 | CODEC_VP8 | CODEC_VP9
| CODEC_MPEG2 | CODEC_MPEG4 | CODEC_MJPEG

datatype DeviceType =
  DEVICE_DEFAULT | DEVICE_V4L2 | DEVICE_CSI | DEVICE_IP | DEVICE_FILE | DEVICE_DISPLAY

datatype IoType = INPUT | OUTPUT

datatype FlipMethod =
  FLIP_NONE | FLIP_COUNTERCLOCKWISE | FLIP_ROTATE_180 | FLIP_CLOCKWISE
| FLIP_HORIZONTAL | FLIP_UPPER_RIGHT_DIAGONAL | FLIP_VERTICAL | FLIP_UPPER_LEFT_DIAGONAL

text \<open>The value printed by \<^verbatim>\<open>(int)mOptions.flipMethod\<close>: the position in the enumeration.\<close>

fun flipMethod_int :: "FlipMethod \<Rightarrow> nat" where
  "flipMethod_int FLIP_NONE = 0"
| "flipMethod_int FLIP_COUNTERCLOCKWISE = 1"
| "flipMethod_int FLIP_ROTATE_180 = 2"
| "flipMethod_int FLIP_CLOCKWISE = 3"
| "flipMethod_int FLIP_HORIZONTAL = 4"
| "flipMethod_int FLIP_UPPER_RIGHT_DIAGONAL = 5"
| "flipMethod_int FLIP_VERTICAL = 6"
| "flipMethod_int FLIP_UPPER_LEFT_DIAGONAL = 7"

record videoOptions =
  resource :: URI
  width :: "32 word"
  height :: "32 word"
  numBuffers :: "32 word"
  zeroCopy :: bool
  flipMethod :: FlipMethod
  codec :: Codec
  deviceType :: DeviceType
  ioType :: IoType

text \<open>The table \<^verbatim>\<open>gstDecoder::SupportedExtensions\<close> (without its terminating NULL).\<close>

definition SupportedExtensions :: "string list" where
  "SupportedExtensions = [''mkv'', ''mp4'', ''qt'', ''flv'', ''avi'', ''h264'', ''h265'']"

section \<open>Collaborators\<close>

subsection \<open>The decode backend\<close>

datatype GstState =
  GST_STATE_VOID_PENDING | GST_STATE_NULL | GST_STATE_READY | GST_STATE_PAUSED
| GST_STATE_PLAYING

datatype GstStateChangeReturn =
  GST_STATE_CHANGE_FAILURE | GST_STATE_CHANGE_SUCCESS | GST_STATE_CHANGE_ASYNC
| GST_STATE_CHANGE_NO_PREROLL

datatype GstMessageType =
  GST_MESSAGE_ERROR | GST_MESSAGE_WARNING | GST_MESSAGE_EOS | GST_MESSAGE_STATE_CHANGED
| GST_MESSAGE_ASYNC_DONE | GST_MESSAGE_OTHER

datatype GstMessage = GstMessage GstMessageType string

type_synonym frame = "8 word list"

text \<open>
  A sample as the sink hands it over. Each accessor of the backend that may return NULL
  is an optional component: the caps of the sample, the first structure of the caps, the
  integer fields of the structure (looked up by name), the buffer of the sample, and the
  bytes the buffer maps to (\<open>None\<close> when \<^verbatim>\<open>gst_buffer_map\<close> fails).
\<close>

type_synonym GstStructure = "(string \<times> 32 word) list"

record GstCaps =
  gst_caps_get_structure :: "GstStructure option"

record GstBuffer =
  gst_buffer_map :: "frame option"

record GstSample =
  gst_sample_get_caps :: "GstCaps option"
  gst_sample_get_buffer :: "GstBuffer option"

definition gst_structure_get_int :: "GstStructure \<Rightarrow> string \<Rightarrow> 32 word option" where
  "gst_structure_get_int st name = map_of st name"

text \<open>
  What the backend answers while the engine is constructed: the process-wide
  initialisation, the file system, the parser of pipeline descriptions (an element and
  whether an error was set), the casts and the look-ups.
\<close>

record gst_api =
  gstreamerInit :: bool
  fileExists :: "string \<Rightarrow> bool"
  gst_parse_launch :: "string \<Rightarrow> handle option \<times> bool"
  GST_PIPELINE :: "handle option \<Rightarrow> handle option"
  gst_pipeline_get_bus :: "handle \<Rightarrow> handle option"
  gst_bin_get_by_name :: "handle \<Rightarrow> string \<Rightarrow> handle option"
  GST_APP_SINK :: "handle option \<Rightarrow> handle option"

text \<open>
  What the backend answers to one \<^verbatim>\<open>gst_element_set_state\<close>: the result of the call,
  the messages it posts on the bus while the call runs, and the messages it posts while
  the caller sleeps afterwards.
\<close>

record state_change =
  result :: GstStateChangeReturn
  posted_by_change :: "GstMessage list"
  posted_during_sleep :: "GstMessage list"

subsection \<open>Ring buffer\<close>

text \<open>
  Modelled from the spec: the class \<^verbatim>\<open>RingBuffer\<close> (members \<^verbatim>\<open>Alloc\<close>, \<^verbatim>\<open>Peek\<close>,
  \<^verbatim>\<open>Next\<close>) is used by the source file but defined outside it. The pool is a sequence of
  equally sized slots with a write cursor (the latest published slot) and a read cursor;
  \<open>unread\<close> says that a slot has been published since the last read.
\<close>

record RingBuffer =
  slots :: "frame list"
  slotSize :: nat
  zeroCopyFlag :: bool
  writeCursor :: nat
  readCursor :: nat
  unread :: bool

definition RingBuffer_new :: RingBuffer where
  "RingBuffer_new =
     \<lparr>slots = [], slotSize = 0, zeroCopyFlag = False, writeCursor = 0, readCursor = 0,
      unread = False\<rparr>"

text \<open>
  Modelled from the spec: \<^verbatim>\<open>Allocate(count, slotSize, zeroCopyFlag)\<close> reallocates the pool
  if count or slot size differ from the current allocation and is a no-op otherwise; it
  fails if memory cannot be obtained (\<open>memory\<close> is the allocator's answer). A new pool
  has nothing published.
\<close>

definition Alloc :: "nat \<Rightarrow> nat \<Rightarrow> bool \<Rightarrow> bool \<Rightarrow> RingBuffer \<Rightarrow> bool \<times> RingBuffer" where
  "Alloc count sz zc memory rb =
     (if count = length (slots rb) \<and> sz = slotSize rb then (True, rb)
      else if \<not> memory then (False, rb)
      else (True, \<lparr>slots = replicate count (replicate sz 0), slotSize = sz,
                   zeroCopyFlag = zc, writeCursor = 0, readCursor = 0, unread = False\<rparr>))"

text \<open>
  Modelled from the spec: \<^verbatim>\<open>NextForWrite()\<close>, the source's \<^verbatim>\<open>Peek(RingBuffer::Write)\<close>,
  returns the next unpublished slot without advancing the write cursor.
\<close>

definition Peek_Write :: "RingBuffer \<Rightarrow> nat option" where
  "Peek_Write rb =
     (if slots rb = [] then None else Some ((writeCursor rb + 1) mod length (slots rb)))"

text \<open>
  Modelled from the spec: \<^verbatim>\<open>PublishWrite()\<close>, the source's \<^verbatim>\<open>Next(RingBuffer::Write)\<close>,
  advances the write cursor and returns the slot it now points to.
\<close>

definition Next_Write :: "RingBuffer \<Rightarrow> nat option \<times> RingBuffer" where
  "Next_Write rb =
     (if slots rb = [] then (None, rb)
      else (let w = (writeCursor rb + 1) mod length (slots rb)
            in (Some w, rb\<lparr>writeCursor := w, unread := True\<rparr>)))"

text \<open>
  Modelled from the spec: \<^verbatim>\<open>ReadLatestOnce()\<close>, the source's
  \<^verbatim>\<open>Next(RingBuffer::ReadLatestOnce)\<close>, returns the most recently published slot at most
  once per publication, and null if nothing was published since the last read.
\<close>

definition Next_ReadLatestOnce :: "RingBuffer \<Rightarrow> nat option \<times> RingBuffer" where
  "Next_ReadLatestOnce rb =
     (if writeCursor rb < length (slots rb) \<and> unread rb
      then (Some (writeCursor rb), rb\<lparr>readCursor := writeCursor rb, unread := False\<rparr>)
      else (None, rb))"

subsection \<open>Wait/wake signal\<close>

text \<open>
  Modelled from the spec: the class \<^verbatim>\<open>Event\<close> (members \<^verbatim>\<open>Wake\<close>, \<^verbatim>\<open>Wait\<close>) is defined
  outside the source file. Several wakes before a wait collapse to one pending wake. The
  methods of the engine are run one at a time, so nobody wakes a consumer that is
  already waiting: a wait without a pending wake ends by its timeout, and with the
  distinguished infinite timeout it never returns, which is the value \<open>None\<close>.
\<close>

record Event =
  pending :: bool

definition TIMEOUT_INFINITE :: "64 word" where
  "TIMEOUT_INFINITE = - 1"

definition Wake :: "Event \<Rightarrow> Event" where
  "Wake ev = ev\<lparr>pending := True\<rparr>"

definition Wait :: "64 word \<Rightarrow> Event \<Rightarrow> (bool \<times> Event) option" where
  "Wait timeout ev =
     (if pending ev then Some (True, ev\<lparr>pending := False\<rparr>)
      else if timeout = TIMEOUT_INFINITE then None
      else Some (False, ev))"

subsection \<open>Colorspace conversion\<close>

datatype imageFormat =
  IMAGE_RGB8 | IMAGE_RGBA8 | IMAGE_RGB32F | IMAGE_RGBA32F | IMAGE_NV12 | IMAGE_UNKNOWN

text \<open>
  What one call of \<^verbatim>\<open>Capture\<close> gets from its surroundings: the backend's answer should
  the stream have to be opened, the size of an image in a format, the allocator's answer,
  and the conversion routine (the converted bytes, or \<open>None\<close> for a CUDA failure).
\<close>

record capture_env =
  open_change :: state_change
  imageFormatSize :: "imageFormat \<Rightarrow> 32 word \<Rightarrow> 32 word \<Rightarrow> nat"
  rgb_memory :: bool
  cudaConvertColor ::
    "frame \<Rightarrow> imageFormat \<Rightarrow> nat option \<Rightarrow> imageFormat \<Rightarrow> 32 word \<Rightarrow> 32 word \<Rightarrow> frame option"

text \<open>What one frame callback gets: the pulled sample and the allocator's answer.\<close>

record ingest_env =
  gst_app_sink_pull_sample :: "GstSample option"
  yuv_memory :: bool

section \<open>The decoder\<close>

text \<open>
  The calls the engine makes on its collaborators are recorded in order in \<open>effects\<close>:
  state changes requested from the pipeline, sleeps, messages printed, wakes and waits
  of the signal, and the store through the caller's output pointer.
\<close>

type_synonym outptr = nat

datatype effect =
  SetState GstState
| Usleep nat
| Printed GstMessage
| Woken
| Waited "64 word"
| Stored outptr "nat option"

text \<open>
  \<open>mStreaming\<close> and \<open>mOptions\<close> are inherited from \<^verbatim>\<open>videoSource\<close>. \<open>bus\<close> is the queue
  of pending messages behind the handle \<open>mBus\<close>.
\<close>

record gstDecoder =
  mOptions :: videoOptions
  mStreaming :: bool
  mEOS :: bool
  mLaunchStr :: string
  mPipeline :: "handle option"
  mBus :: "handle option"
  mAppSink :: "handle option"
  mBufferYUV :: RingBuffer
  mBufferRGB :: RingBuffer
  mWaitEvent :: Event
  bus :: "GstMessage list"
  effects :: "effect list"

text \<open>The constructor \<^verbatim>\<open>gstDecoder::gstDecoder(const videoOptions&)\<close>.\<close>

definition gstDecoder_new :: "videoOptions \<Rightarrow> gstDecoder" where
  "gstDecoder_new options =
     \<lparr>mOptions = options, mStreaming = False, mEOS = False, mLaunchStr = [],
      mPipeline = None, mBus = None, mAppSink = None,
      mBufferYUV = RingBuffer_new, mBufferRGB = RingBuffer_new,
      mWaitEvent = \<lparr>pending = False\<rparr>, bus = [], effects = []\<rparr>"

section \<open>Pipeline description\<close>

text \<open>Decimal output of \<^verbatim>\<open>operator<<\<close> for the integers the description contains.\<close>

fun show_nat :: "nat \<Rightarrow> string" where
  "show_nat n =
     (if n < 10 then [''0123456789'' ! n]
      else show_nat (n div 10) @ [''0123456789'' ! (n mod 10)])"

declare show_nat.simps [simp del]

definition show_int :: "int \<Rightarrow> string" where
  "show_int i = (if i < 0 then ''-'' @ show_nat (nat (- i)) else show_nat (nat i))"

datatype config_error =
  MissingFile | UnsupportedExtension | InvalidPort | UnsupportedProtocol | UnsupportedCodec

text \<open>
  \<^verbatim>\<open>gstDecoder::buildLaunchStr\<close>, in the three parts of its body. The first part (the
  branches on \<^verbatim>\<open>uri.protocol\<close>) yields the text streamed so far and the device type it
  stores in the options, or the error of the branch that returns false.
\<close>

definition source_stages ::
  "gst_api \<Rightarrow> videoOptions \<Rightarrow> config_error + string \<times> DeviceType" where
  \<open>source_stages api opt =
     (let uri = resource opt in
      if protocol uri = ''file'' then
        if \<not> fileExists api (path uri) then Inl MissingFile
        else
          (let ss = ''filesrc location='' @ path (resource opt) @ '' ! '' in
           case (if extension uri = ''mkv'' then Inr (ss @ ''matroskademux ! '')
                 else if extension uri = ''mp4'' \<or> extension uri = ''qt''
                   then Inr (ss @ ''qtdemux ! '')
                 else if extension uri = ''flv'' then Inr (ss @ ''flvdemux ! '')
                 else if extension uri = ''avi'' then Inr (ss @ ''avidemux ! '')
                 else if extension uri \<noteq> ''h264'' \<and> extension uri \<noteq> ''h265''
                   then Inl UnsupportedExtension
                 else Inr ss) of
             Inl e \<Rightarrow> Inl e
           | Inr ss \<Rightarrow>
               (let ss = ss @ ''queue ! '';
                    ss = ss @ (if codec opt = CODEC_H264 then ''h264parse ! ''
                               else if codec opt = CODEC_H265 then ''h265parse ! ''
                               else if codec opt = CODEC_MPEG2 then ''mpegvideoparse ! ''
                               else if codec opt = CODEC_MPEG4 then ''mpeg4videoparse ! ''
                               else [])
                in Inr (ss, DEVICE_FILE)))
      else if protocol uri = ''rtp'' then
        if port uri \<le> 0 then Inl InvalidPort
        else
          (let ss = ''udpsrc port='' @ show_int (port uri);
               ss = ss @ '' multicast-group='' @ path uri @ '' auto-multicast=true'';
               ss = ss @ '' caps="''
                 @ ''application/x-rtp,media=(string)video,clock-rate=(int)90000,encoding-name=(string)'';
               ss = ss @ (if codec opt = CODEC_H264 then ''H264" ! rtph264depay ! h264parse ! ''
                          else if codec opt = CODEC_H265
                            then ''H265" ! rtph265depay ! h265parse ! ''
                          else if codec opt = CODEC_VP8 then ''VP8" ! rtpvp8depay ! ''
                          else if codec opt = CODEC_VP9 then ''VP9" ! rtpvp9depay ! ''
                          else [])
           in Inr (ss, DEVICE_IP))
      else if protocol uri = ''rtsp'' then
        (let ss = ''rtspsrc location='' @ uri_string uri;
             ss = ss @ '' ! queue ! '';
             ss = ss @ (if codec opt = CODEC_H264 then ''rtph264depay ! h264parse ! ''
                        else if codec opt = CODEC_H265 then ''rtph265depay ! h265parse ! ''
                        else if codec opt = CODEC_VP8 then ''rtpvp8depay ! ''
                        else if codec opt = CODEC_VP9 then ''rtpvp9depay ! ''
                        else [])
         in Inr (ss, DEVICE_IP))
      else Inl UnsupportedProtocol)\<close>

text \<open>The second part: the decoder element, in the branch for GStreamer 1.0 and later.\<close>

definition decoder_stage :: "Codec \<Rightarrow> config_error + string" where
  "decoder_stage c =
     (if c = CODEC_H264 then Inr ''omxh264dec ! ''
      else if c = CODEC_H265 then Inr ''omxh265dec ! ''
      else if c = CODEC_VP8 then Inr ''omxvp8dec ! ''
      else if c = CODEC_VP9 then Inr ''omxvp9dec ! ''
      else if c = CODEC_MPEG2 then Inr ''omxmpeg2videodec ! ''
      else if c = CODEC_MPEG4 then Inr ''omxmpeg4videodec ! ''
      else Inl UnsupportedCodec)"

text \<open>The third part: the resize and flip stage in front of the sink.\<close>

definition resize_stage :: "videoOptions \<Rightarrow> string" where
  "resize_stage opt =
     (if width opt \<noteq> 0 \<and> height opt \<noteq> 0 \<or> flipMethod opt \<noteq> FLIP_NONE then
        ''nvvidconv''
        @ (if flipMethod opt \<noteq> FLIP_NONE
           then '' flip-method='' @ show_nat (flipMethod_int (flipMethod opt)) else [])
        @ '' ! video/x-raw''
        @ (if width opt \<noteq> 0 \<and> height opt \<noteq> 0
           then '', width=(int)'' @ show_nat (unat (width opt))
                @ '', height=(int)'' @ show_nat (unat (height opt))
                @ '', format=(string)NV12''
           else [])
        @ '' ! ''
      else ''video/x-raw ! '')"

text \<open>
  A failing \<^verbatim>\<open>buildLaunchStr\<close> is the error of the branch that returned false; the object
  it leaves behind is never used again, since \<^verbatim>\<open>Create\<close> returns NULL.
\<close>

definition buildLaunchStr :: "gst_api \<Rightarrow> gstDecoder \<Rightarrow> config_error + gstDecoder" where
  "buildLaunchStr api dec =
     (case source_stages api (mOptions dec) of
        Inl e \<Rightarrow> Inl e
      | Inr (ss, dev) \<Rightarrow>
          (let dec = dec\<lparr>mOptions := (mOptions dec)\<lparr>deviceType := dev\<rparr>\<rparr> in
           case decoder_stage (codec (mOptions dec)) of
             Inl e \<Rightarrow> Inl e
           | Inr d \<Rightarrow>
               (let ss = ss @ d;
                    ss = ss @ resize_stage (mOptions dec);
                    ss = ss @ ''appsink name=mysink''
                in Inr (dec\<lparr>mLaunchStr := ss\<rparr>))))"

section \<open>Construction\<close>

datatype init_error =
  GstreamerInitFailed
| ConfigurationError config_error
| PipelineCreateFailed
| PipelineCastFailed
| NoBus
| NoAppSink

text \<open>\<^verbatim>\<open>gstDecoder::init\<close>: each \<^verbatim>\<open>return false\<close> is the error of its branch.\<close>

definition init :: "gst_api \<Rightarrow> gstDecoder \<Rightarrow> init_error + gstDecoder" where
  "init api dec =
     (if \<not> gstreamerInit api then Inl GstreamerInitFailed
      else case buildLaunchStr api dec of
        Inl e \<Rightarrow> Inl (ConfigurationError e)
      | Inr dec \<Rightarrow>
          (let (element, err) = gst_parse_launch api (mLaunchStr dec);
               dec = dec\<lparr>mPipeline := element\<rparr> in
           if err then Inl PipelineCreateFailed
           else case GST_PIPELINE api (mPipeline dec) of
             None \<Rightarrow> Inl PipelineCastFailed
           | Some pipeline \<Rightarrow>
               (let dec = dec\<lparr>mBus := gst_pipeline_get_bus api pipeline\<rparr> in
                if mBus dec = None then Inl NoBus
                else
                  (let appsinkElement = gst_bin_get_by_name api pipeline ''mysink'';
                       appsink = GST_APP_SINK api appsinkElement in
                   if appsinkElement = None \<or> appsink = None then Inl NoAppSink
                   else Inr (dec\<lparr>mAppSink := appsink\<rparr>)))))"

text \<open>\<^verbatim>\<open>gstDecoder::Create(const videoOptions&)\<close>: the engine, or \<open>None\<close> for NULL.\<close>

definition Create :: "gst_api \<Rightarrow> videoOptions \<Rightarrow> gstDecoder option" where
  "Create api options =
     (case init api (gstDecoder_new options) of
        Inl e \<Rightarrow> None
      | Inr dec \<Rightarrow> Some dec)"

section \<open>Status channel\<close>

text \<open>\<^verbatim>\<open>gst_bus_pop(mBus)\<close>: the oldest pending message, or NULL.\<close>

definition gst_bus_pop :: "gstDecoder \<Rightarrow> GstMessage option \<times> gstDecoder" where
  "gst_bus_pop dec =
     (case bus dec of
        [] \<Rightarrow> (None, dec)
      | msg # rest \<Rightarrow> (Some msg, dec\<lparr>bus := rest\<rparr>))"

text \<open>
  Modelled from the spec: \<^verbatim>\<open>gst_message_print\<close> is defined outside the source file; the
  status channel is polled and its messages are logged, and the value it returns is
  dropped by the caller.
\<close>

definition gst_message_print :: "GstMessage \<Rightarrow> gstDecoder \<Rightarrow> gstDecoder" where
  "gst_message_print msg dec = dec\<lparr>effects := effects dec @ [Printed msg]\<rparr>"

text \<open>\<^verbatim>\<open>gstDecoder::checkMsgBus\<close>: the loop runs until the bus has no message left.\<close>

function checkMsgBus :: "gstDecoder \<Rightarrow> gstDecoder" where
  "checkMsgBus dec =
     (case gst_bus_pop dec of
        (None, dec) \<Rightarrow> dec
      | (Some msg, dec) \<Rightarrow> checkMsgBus (gst_message_print msg dec))"
  by pat_completeness auto
termination
  by (relation "measure (\<lambda>dec. length (bus dec))")
     (auto simp: gst_bus_pop_def gst_message_print_def split: list.splits)

declare checkMsgBus.simps [simp del]

section \<open>Capture state machine\<close>

text \<open>
  \<^verbatim>\<open>gst_element_set_state(mPipeline, state)\<close>: the request is recorded, the messages the
  backend posts meanwhile reach the bus, and the backend's result is returned.
\<close>

definition gst_element_set_state ::
  "state_change \<Rightarrow> GstState \<Rightarrow> gstDecoder \<Rightarrow> GstStateChangeReturn \<times> gstDecoder" where
  "gst_element_set_state chg st dec =
     (result chg,
      dec\<lparr>effects := effects dec @ [SetState st], bus := bus dec @ posted_by_change chg\<rparr>)"

definition usleep :: "state_change \<Rightarrow> nat \<Rightarrow> gstDecoder \<Rightarrow> gstDecoder" where
  "usleep chg us dec =
     dec\<lparr>effects := effects dec @ [Usleep us], bus := bus dec @ posted_during_sleep chg\<rparr>"

text \<open>
  \<^verbatim>\<open>gstDecoder::Open\<close>. The branch for ASYNC is empty in the source and the
  branch for any other result than SUCCESS returns false: one test here.
\<close>

definition Open :: "state_change \<Rightarrow> gstDecoder \<Rightarrow> bool \<times> gstDecoder" where
  "Open chg dec =
     (if mEOS dec then (False, dec)
      else if mStreaming dec then (True, dec)
      else
        (let (result, dec) = gst_element_set_state chg GST_STATE_PLAYING dec in
         if result \<noteq> GST_STATE_CHANGE_ASYNC \<and> result \<noteq> GST_STATE_CHANGE_SUCCESS
         then (False, dec)
         else
           (let dec = checkMsgBus dec;
                dec = usleep chg (100 * 1000) dec;
                dec = checkMsgBus dec
            in (True, dec\<lparr>mStreaming := True\<rparr>))))"

text \<open>
  The two parts of \<^verbatim>\<open>Open\<close> on either side of its sleep, where the thread of the sink
  runs its callbacks while the caller is suspended. \<open>Open_start\<close> is the body up to and
  including \<^verbatim>\<open>usleep\<close> (lines 654 to 690), with the value returned where it returns
  before the sleep; \<open>Open_finish\<close> is the rest (lines 691 to 694).
\<close>

definition Open_start :: "state_change \<Rightarrow> gstDecoder \<Rightarrow> bool option \<times> gstDecoder" where
  "Open_start chg dec =
     (if mEOS dec then (Some False, dec)
      else if mStreaming dec then (Some True, dec)
      else
        (let (result, dec) = gst_element_set_state chg GST_STATE_PLAYING dec in
         if result \<noteq> GST_STATE_CHANGE_ASYNC \<and> result \<noteq> GST_STATE_CHANGE_SUCCESS
         then (Some False, dec)
         else
           (let dec = checkMsgBus dec;
                dec = usleep chg (100 * 1000) dec
            in (None, dec))))"

definition Open_finish :: "gstDecoder \<Rightarrow> bool \<times> gstDecoder" where
  "Open_finish dec =
     (let dec = checkMsgBus dec
      in (True, dec\<lparr>mStreaming := True\<rparr>))"

text \<open>\<^verbatim>\<open>gstDecoder::Close\<close>.\<close>

definition Close :: "state_change \<Rightarrow> gstDecoder \<Rightarrow> gstDecoder" where
  "Close chg dec =
     (if \<not> mStreaming dec \<and> \<not> mEOS dec then dec
      else
        (let (result, dec) = gst_element_set_state chg GST_STATE_NULL dec;
             dec = usleep chg (250 * 1000) dec;
             dec = checkMsgBus dec
         in dec\<lparr>mStreaming := False\<rparr>))"

section \<open>Frame ingestion\<close>

text \<open>
  \<^verbatim>\<open>gstDecoder::checkBuffer\<close>, in the branch for GStreamer 1.0 and later.
  \<^verbatim>\<open>gstSize\<close> is a \<^verbatim>\<open>guint\<close>: the size of the mapping cut to 32 bits. The integers read
  from the caps are signed; the options store them as unsigned 32-bit values.
\<close>

definition checkBuffer :: "ingest_env \<Rightarrow> gstDecoder \<Rightarrow> gstDecoder" where
  "checkBuffer env dec =
     (if mAppSink dec = None then dec
      else case gst_app_sink_pull_sample env of
        None \<Rightarrow> dec
      | Some gstSample \<Rightarrow>
      (case gst_sample_get_caps gstSample of
        None \<Rightarrow> dec
      | Some gstCaps \<Rightarrow>
      (case gst_sample_get_buffer gstSample of
        None \<Rightarrow> dec
      | Some gstBuffer \<Rightarrow>
      (case gst_buffer_map gstBuffer of
        None \<Rightarrow> dec
      | Some gstData \<Rightarrow>
      (let gstSize = (of_nat (length gstData) :: 32 word) in
       case gst_caps_get_structure gstCaps of
        None \<Rightarrow> dec
      | Some gstCapsStruct \<Rightarrow>
      (case gst_structure_get_int gstCapsStruct ''width'' of
        None \<Rightarrow> dec
      | Some w \<Rightarrow>
      (case gst_structure_get_int gstCapsStruct ''height'' of
        None \<Rightarrow> dec
      | Some h \<Rightarrow>
        if sint w < 1 \<or> sint h < 1 then dec
        else
          (let dec = dec\<lparr>mOptions := (mOptions dec)\<lparr>width := w, height := h\<rparr>\<rparr>;
               (ok, yuv) = Alloc (unat (numBuffers (mOptions dec))) (unat gstSize) True
                             (yuv_memory env) (mBufferYUV dec);
               dec = dec\<lparr>mBufferYUV := yuv\<rparr>
           in if \<not> ok then dec
              else case Peek_Write (mBufferYUV dec) of
                None \<Rightarrow> dec
              | Some nextBuffer \<Rightarrow>
                  (let yuv = mBufferYUV dec;
                       yuv = yuv\<lparr>slots := (slots yuv)[nextBuffer := take (unat gstSize) gstData]\<rparr>;
                       (published, yuv) = Next_Write yuv
                   in dec\<lparr>mBufferYUV := yuv,
                          mWaitEvent := Wake (mWaitEvent dec),
                          effects := effects dec @ [Woken]\<rparr>)))))))))"

text \<open>
  The callbacks registered with the sink. \<^verbatim>\<open>user_data\<close> is the pointer to the engine
  (\<open>None\<close> for NULL); the result is the engine behind it after the callback.
\<close>

definition onEOS :: "gstDecoder option \<Rightarrow> gstDecoder option" where
  "onEOS user_data =
     (case user_data of
        None \<Rightarrow> None
      | Some dec \<Rightarrow> Some (dec\<lparr>mEOS := True, mStreaming := False\<rparr>))"

definition onPreroll :: "GstSample option \<Rightarrow> gstDecoder option \<Rightarrow> gstDecoder option" where
  "onPreroll gst_app_sink_pull_preroll user_data =
     (case user_data of
        None \<Rightarrow> None
      | Some dec \<Rightarrow>
          (case gst_app_sink_pull_preroll of
             None \<Rightarrow> Some dec
           | Some gstSample \<Rightarrow> Some (checkMsgBus dec)))"

definition onBuffer :: "ingest_env \<Rightarrow> gstDecoder option \<Rightarrow> gstDecoder option" where
  "onBuffer env user_data =
     (case user_data of
        None \<Rightarrow> None
      | Some dec \<Rightarrow> Some (checkMsgBus (checkBuffer env dec)))"

section \<open>Capture request\<close>

text \<open>
  \<^verbatim>\<open>gstDecoder::Capture\<close>. \<open>output\<close> is the caller's pointer (\<open>None\<close> for NULL). The
  result is \<open>None\<close> when the call never returns, which only the wait can cause.
\<close>

definition Capture ::
  "capture_env \<Rightarrow> outptr option \<Rightarrow> imageFormat \<Rightarrow> 64 word \<Rightarrow> gstDecoder
     \<Rightarrow> (bool \<times> gstDecoder) option" where
  "Capture env output format timeout dec =
     (case output of
        None \<Rightarrow> Some (False, dec)
      | Some out \<Rightarrow>
      (case (if \<not> mStreaming dec then Open (open_change env) dec else (True, dec)) of
        (False, dec) \<Rightarrow> Some (False, dec)
      | (True, dec) \<Rightarrow>
      (case Wait timeout (mWaitEvent dec) of
        None \<Rightarrow> None
      | Some (woken, ev) \<Rightarrow>
      (let dec = dec\<lparr>mWaitEvent := ev, effects := effects dec @ [Waited timeout]\<rparr> in
       if \<not> woken then Some (False, dec)
       else
         (let (latestYUV, yuv) = Next_ReadLatestOnce (mBufferYUV dec);
              dec = dec\<lparr>mBufferYUV := yuv\<rparr>
          in case latestYUV of
            None \<Rightarrow> Some (False, dec)
          | Some latest \<Rightarrow>
            (let rgbBufferSize =
                   imageFormatSize env format (width (mOptions dec)) (height (mOptions dec));
                 (ok, rgb) = Alloc (unat (numBuffers (mOptions dec))) rgbBufferSize
                               (zeroCopy (mOptions dec)) (rgb_memory env) (mBufferRGB dec);
                 dec = dec\<lparr>mBufferRGB := rgb\<rparr>
             in if \<not> ok then Some (False, dec)
                else
                  (let (nextRGB, rgb) = Next_Write (mBufferRGB dec);
                       dec = dec\<lparr>mBufferRGB := rgb\<rparr>
                   in case cudaConvertColor env (slots (mBufferYUV dec) ! latest) IMAGE_NV12
                             nextRGB format (width (mOptions dec)) (height (mOptions dec)) of
                     None \<Rightarrow> Some (False, dec)
                   | Some converted \<Rightarrow>
                       (let rgb = mBufferRGB dec;
                            rgb = (case nextRGB of
                                     None \<Rightarrow> rgb
                                   | Some i \<Rightarrow> rgb\<lparr>slots := (slots rgb)[i := converted]\<rparr>)
                        in Some (True, dec\<lparr>mBufferRGB := rgb,
                                           effects := effects dec @ [Stored out nextRGB]\<rparr>)))))))))"

section \<open>Runs\<close>

text \<open>
  The calls an application makes on the engine and the events the backend delivers to
  it, run one at a time. The callbacks get the engine as \<^verbatim>\<open>user_data\<close>, as \<^verbatim>\<open>init\<close>
  registers them. A run is \<open>None\<close> when one of its calls never returns.
\<close>

datatype call =
  Call_Open state_change
| Call_Close state_change
| Call_Capture capture_env "outptr option" imageFormat "64 word"
| On_Buffer ingest_env
| On_Preroll "GstSample option"
| On_EOS
| Bus_Post GstMessage

fun step :: "call \<Rightarrow> gstDecoder \<Rightarrow> gstDecoder option" where
  "step (Call_Open chg) dec = Some (snd (Open chg dec))"
| "step (Call_Close chg) dec = Some (Close chg dec)"
| "step (Call_Capture env output format timeout) dec =
     map_option snd (Capture env output format timeout dec)"
| "step (On_Buffer env) dec = onBuffer env (Some dec)"
| "step (On_Preroll smp) dec = onPreroll smp (Some dec)"
| "step On_EOS dec = onEOS (Some dec)"
| "step (Bus_Post msg) dec = Some (dec\<lparr>bus := bus dec @ [msg]\<rparr>)"

fun exec :: "call list \<Rightarrow> gstDecoder \<Rightarrow> gstDecoder option" where
  "exec [] dec = Some dec"
| "exec (c # cs) dec =
     (case step c dec of
        None \<Rightarrow> None
      | Some dec \<Rightarrow> exec cs dec)"

section \<open>Counting publications and deliveries\<close>

text \<open>
  A frame is published by the \<^verbatim>\<open>Next(RingBuffer::Write)\<close> of \<^verbatim>\<open>checkBuffer\<close>, which is
  followed at once by the wake of the consumer; a frame is delivered by the store through
  the output pointer at the end of \<^verbatim>\<open>Capture\<close>. Both are counted in the recorded calls.
\<close>

definition published :: "gstDecoder \<Rightarrow> nat" where
  "published dec = length (filter (\<lambda>e. e = Woken) (effects dec))"

definition delivered :: "gstDecoder \<Rightarrow> nat" where
  "delivered dec =
     length (filter (\<lambda>e. case e of Stored out p \<Rightarrow> True | _ \<Rightarrow> False) (effects dec))"

section \<open>A sample engine\<close>

text \<open>
  A configuration for an MP4 file with H.264 video and a pre-specified size of 640 by 480,
  a backend on which every step of the construction succeeds, and the engine that
  \<^verbatim>\<open>Create\<close> returns for them.
\<close>

definition example_options :: videoOptions where
  "example_options =
     \<lparr>resource = \<lparr>uri_string = ''file:///media/clip.mp4'', protocol = ''file'',
                  path = ''/media/clip.mp4'', extension = ''mp4'', port = - 1\<rparr>,
      width = 640, height = 480, numBuffers = 4, zeroCopy = True, flipMethod = FLIP_NONE,
      codec = CODEC_H264, deviceType = DEVICE_DEFAULT, ioType = INPUT\<rparr>"

definition example_api :: gst_api where
  "example_api =
     \<lparr>gstreamerInit = True,
      fileExists = (\<lambda>p. p = ''/media/clip.mp4''),
      gst_parse_launch = (\<lambda>s. (Some 1, False)),
      GST_PIPELINE = (\<lambda>e. e),
      gst_pipeline_get_bus = (\<lambda>p. Some 2),
      gst_bin_get_by_name = (\<lambda>p n. if n = ''mysink'' then Some 3 else None),
      GST_APP_SINK = (\<lambda>e. e)\<rparr>"

definition example_decoder :: gstDecoder where
  "example_decoder =
     \<lparr>mOptions = example_options\<lparr>deviceType := DEVICE_FILE\<rparr>,
      mStreaming = False, mEOS = False,
      mLaunchStr = ''filesrc location=/media/clip.mp4 ! qtdemux ! queue ! h264parse ! omxh264dec ! nvvidconv ! video/x-raw, width=(int)640, height=(int)480, format=(string)NV12 ! appsink name=mysink'',
      mPipeline = Some 1, mBus = Some 2, mAppSink = Some 3,
      mBufferYUV = RingBuffer_new, mBufferRGB = RingBuffer_new,
      mWaitEvent = \<lparr>pending = False\<rparr>, bus = [], effects = []\<rparr>"

definition example_sample :: "32 word \<Rightarrow> 32 word \<Rightarrow> frame \<Rightarrow> GstSample" where
  "example_sample w h bytes =
     \<lparr>gst_sample_get_caps =
        Some \<lparr>gst_caps_get_structure = Some [(''width'', w), (''height'', h)]\<rparr>,
      gst_sample_get_buffer = Some \<lparr>gst_buffer_map = Some bytes\<rparr>\<rparr>"

definition example_frame :: "32 word \<Rightarrow> 32 word \<Rightarrow> frame \<Rightarrow> ingest_env" where
  "example_frame w h bytes =
     \<lparr>gst_app_sink_pull_sample = Some (example_sample w h bytes), yuv_memory = True\<rparr>"

definition example_change :: state_change where
  "example_change =
     \<lparr>result = GST_STATE_CHANGE_ASYNC,
      posted_by_change = [GstMessage GST_MESSAGE_STATE_CHANGED ''PLAYING''],
      posted_during_sleep = []\<rparr>"

definition example_failed_start :: state_change where
  "example_failed_start =
     \<lparr>result = GST_STATE_CHANGE_ASYNC,
      posted_by_change = [GstMessage GST_MESSAGE_ERROR ''Internal data stream error.''],
      posted_during_sleep = []\<rparr>"

definition example_capture_env :: capture_env where
  "example_capture_env =
     \<lparr>open_change = example_change,
      imageFormatSize = (\<lambda>format w h. unat w * unat h * 3),
      rgb_memory = True,
      cudaConvertColor =
        (\<lambda>src srcFormat dst dstFormat w h. if dstFormat = IMAGE_RGB8 then Some src else None)\<rparr>"

definition after :: "call list \<Rightarrow> gstDecoder \<Rightarrow> gstDecoder" where
  "after cs dec = (case exec cs dec of None \<Rightarrow> dec | Some dec' \<Rightarrow> dec')"

definition example_streaming :: gstDecoder where
  "example_streaming =
     after [Call_Open example_change, On_Buffer (example_frame 2 2 [1, 2, 3, 4, 5, 6])]
       example_decoder"

definition example_capture :: call where
  "example_capture = Call_Capture example_capture_env (Some 0) IMAGE_RGB8 1000"

definition example_stale :: gstDecoder where
  "example_stale =
     example_streaming\<lparr>mBufferYUV := (mBufferYUV example_streaming)\<lparr>unread := False\<rparr>\<rparr>"

text \<open>
  The same configuration without a pre-specified size, the engine constructed for it, that
  engine asleep in \<^verbatim>\<open>Open\<close>, and the engine after a frame and the end of stream arrived
  during the sleep and \<^verbatim>\<open>Open\<close> finished.
\<close>

definition example_unsized_options :: videoOptions where
  "example_unsized_options = example_options\<lparr>width := 0, height := 0\<rparr>"

definition example_unsized_decoder :: gstDecoder where
  "example_unsized_decoder =
     example_decoder
       \<lparr>mOptions := example_unsized_options\<lparr>deviceType := DEVICE_FILE\<rparr>,
        mLaunchStr := ''filesrc location=/media/clip.mp4 ! qtdemux ! queue ! h264parse ! omxh264dec ! video/x-raw ! appsink name=mysink''\<rparr>"

definition example_sleeping :: gstDecoder where
  "example_sleeping = snd (Open_start example_change example_unsized_decoder)"

definition example_raced :: gstDecoder where
  "example_raced =
     snd (Open_finish
       (after [On_Buffer (example_frame 2 2 [1, 2, 3, 4, 5, 6]), On_EOS] example_sleeping))"

section \<open>Properties of the status channel and the state machine\<close>

lemma checkMsgBus_drain:
  "bus dec = ms \<Longrightarrow> checkMsgBus dec = dec\<lparr>bus := [], effects := effects dec @ map Printed ms\<rparr>"
proof (induction ms arbitrary: dec)
  case Nil
  then show ?case
    by (simp add: checkMsgBus.simps gst_bus_pop_def)
next
  case (Cons m ms)
  have "bus (gst_message_print m (dec\<lparr>bus := ms\<rparr>)) = ms"
    by (simp add: gst_message_print_def)
  from Cons.IH [OF this] Cons.prems show ?case
    by (simp add: checkMsgBus.simps [of dec] gst_bus_pop_def gst_message_print_def)
qed

lemma checkMsgBus_eq:
  "checkMsgBus dec = dec\<lparr>bus := [], effects := effects dec @ map Printed (bus dec)\<rparr>"
  by (rule checkMsgBus_drain) simp

lemma Open_eos: "mEOS dec \<Longrightarrow> Open chg dec = (False, dec)"
  by (simp add: Open_def)

lemma Capture_eos:
  "mEOS dec \<Longrightarrow> \<not> mStreaming dec \<Longrightarrow> Capture env output format timeout dec = Some (False, dec)"
  by (simp add: Capture_def Open_def split: option.splits)

lemma Close_eos:
  "mEOS dec \<Longrightarrow> mEOS (Close chg dec) \<and> \<not> mStreaming (Close chg dec)"
  by (simp add: Close_def gst_element_set_state_def usleep_def checkMsgBus_eq)

lemma checkBuffer_flags:
  "mEOS (checkBuffer env dec) = mEOS dec \<and> mStreaming (checkBuffer env dec) = mStreaming dec"
  by (simp add: checkBuffer_def Let_def split: option.splits prod.splits)

lemma step_eos:
  "mEOS dec \<Longrightarrow> \<not> mStreaming dec \<Longrightarrow>
   \<exists>dec'. step c dec = Some dec' \<and> mEOS dec' \<and> \<not> mStreaming dec'"
  by (cases c)
     (simp_all add: Open_eos Capture_eos Close_eos onBuffer_def onPreroll_def onEOS_def
        checkMsgBus_eq checkBuffer_flags split: option.splits)

lemma exec_eos:
  "mEOS dec \<Longrightarrow> \<not> mStreaming dec \<Longrightarrow>
   \<exists>dec'. exec cs dec = Some dec' \<and> mEOS dec' \<and> \<not> mStreaming dec'"
proof (induction cs arbitrary: dec)
  case Nil
  then show ?case by simp
next
  case (Cons c cs)
  from step_eos [OF Cons.prems, of c] obtain d where
    d: "step c dec = Some d" "mEOS d" "\<not> mStreaming d" by blast
  from Cons.IH [OF d(2,3)] d(1) show ?case by simp
qed

lemma checkBuffer_no_caps:
  "gst_app_sink_pull_sample env = Some smp \<Longrightarrow> gst_sample_get_caps smp = None \<Longrightarrow>
   checkBuffer env dec = dec"
  by (simp add: checkBuffer_def)

lemma checkBuffer_no_structure:
  "gst_app_sink_pull_sample env = Some smp \<Longrightarrow> gst_sample_get_caps smp = Some caps \<Longrightarrow>
   gst_caps_get_structure caps = None \<Longrightarrow> checkBuffer env dec = dec"
  by (simp add: checkBuffer_def split: option.splits)

lemma checkBuffer_no_size:
  "gst_app_sink_pull_sample env = Some smp \<Longrightarrow> gst_sample_get_caps smp = Some caps \<Longrightarrow>
   gst_caps_get_structure caps = Some st \<Longrightarrow>
   gst_structure_get_int st ''width'' = None \<or> gst_structure_get_int st ''height'' = None \<Longrightarrow>
   checkBuffer env dec = dec"
  by (auto simp: checkBuffer_def Let_def split: option.splits)

lemma checkBuffer_bad_size:
  "gst_app_sink_pull_sample env = Some smp \<Longrightarrow> gst_sample_get_caps smp = Some caps \<Longrightarrow>
   gst_caps_get_structure caps = Some st \<Longrightarrow>
   gst_structure_get_int st ''width'' = Some w \<Longrightarrow>
   gst_structure_get_int st ''height'' = Some h \<Longrightarrow> sint w < 1 \<or> sint h < 1 \<Longrightarrow>
   checkBuffer env dec = dec"
  by (auto simp: checkBuffer_def Let_def split: option.splits)

lemma checkBuffer_reaches_alloc:
  assumes "mAppSink dec \<noteq> None"
    and "gst_app_sink_pull_sample env = Some smp"
    and "gst_sample_get_caps smp = Some caps"
    and "gst_sample_get_buffer smp = Some buf"
    and "gst_buffer_map buf = Some gstData"
    and "gst_caps_get_structure caps = Some st"
    and "gst_structure_get_int st ''width'' = Some w"
    and "gst_structure_get_int st ''height'' = Some h"
    and "\<not> (sint w < 1 \<or> sint h < 1)"
  shows "checkBuffer env dec =
    (let gstSize = (of_nat (length gstData) :: 32 word);
         dec = dec\<lparr>mOptions := (mOptions dec)\<lparr>width := w, height := h\<rparr>\<rparr>;
         (ok, yuv) = Alloc (unat (numBuffers (mOptions dec))) (unat gstSize) True
                             (yuv_memory env) (mBufferYUV dec);
         dec = dec\<lparr>mBufferYUV := yuv\<rparr>
     in if \<not> ok then dec
        else case Peek_Write (mBufferYUV dec) of
                None \<Rightarrow> dec
              | Some nextBuffer \<Rightarrow>
                  (let yuv = mBufferYUV dec;
                       yuv = yuv\<lparr>slots := (slots yuv)[nextBuffer := take (unat gstSize) gstData]\<rparr>;
                       (published, yuv) = Next_Write yuv
                   in dec\<lparr>mBufferYUV := yuv,
                          mWaitEvent := Wake (mWaitEvent dec),
                          effects := effects dec @ [Woken]\<rparr>))"
  using assms by (cases "mAppSink dec") (simp_all add: checkBuffer_def)

lemma checkBuffer_cases:
  "checkBuffer env dec = dec \<or>
   (\<exists>smp caps buf gstData st w h. mAppSink dec \<noteq> None
      \<and> gst_app_sink_pull_sample env = Some smp
      \<and> gst_sample_get_caps smp = Some caps
      \<and> gst_sample_get_buffer smp = Some buf
      \<and> gst_buffer_map buf = Some gstData
      \<and> gst_caps_get_structure caps = Some st
      \<and> gst_structure_get_int st ''width'' = Some w
      \<and> gst_structure_get_int st ''height'' = Some h
      \<and> \<not> (sint w < 1 \<or> sint h < 1))"
  unfolding checkBuffer_def by (simp add: Let_def split: option.splits)

lemma Open_keeps:
  "mBufferYUV (snd (Open chg dec)) = mBufferYUV dec"
  "mBufferRGB (snd (Open chg dec)) = mBufferRGB dec"
  "mWaitEvent (snd (Open chg dec)) = mWaitEvent dec"
  "mOptions (snd (Open chg dec)) = mOptions dec"
  "published (snd (Open chg dec)) = published dec"
  "delivered (snd (Open chg dec)) = delivered dec"
  by (simp_all add: Open_def gst_element_set_state_def usleep_def checkMsgBus_eq
      published_def delivered_def Let_def)

lemma Close_keeps:
  "mBufferYUV (Close chg dec) = mBufferYUV dec"
  "mBufferRGB (Close chg dec) = mBufferRGB dec"
  "mWaitEvent (Close chg dec) = mWaitEvent dec"
  "mOptions (Close chg dec) = mOptions dec"
  "published (Close chg dec) = published dec"
  "delivered (Close chg dec) = delivered dec"
  by (simp_all add: Close_def gst_element_set_state_def usleep_def checkMsgBus_eq
      published_def delivered_def Let_def)

lemma checkMsgBus_keeps:
  "mBufferYUV (checkMsgBus dec) = mBufferYUV dec"
  "mBufferRGB (checkMsgBus dec) = mBufferRGB dec"
  "mWaitEvent (checkMsgBus dec) = mWaitEvent dec"
  "mOptions (checkMsgBus dec) = mOptions dec"
  "published (checkMsgBus dec) = published dec"
  "delivered (checkMsgBus dec) = delivered dec"
  by (simp_all add: checkMsgBus_eq published_def delivered_def)

lemma checkBuffer_alloc_fails:
  assumes "gst_app_sink_pull_sample env = Some smp"
    and "gst_sample_get_buffer smp = Some buf"
    and "gst_buffer_map buf = Some gstData"
    and "\<not> fst (Alloc (unat (numBuffers (mOptions dec)))
                       (unat (of_nat (length gstData) :: 32 word)) True (yuv_memory env)
                       (mBufferYUV dec))"
  shows "effects (checkBuffer env dec) = effects dec
     \<and> bus (checkBuffer env dec) = bus dec
     \<and> mWaitEvent (checkBuffer env dec) = mWaitEvent dec
     \<and> writeCursor (mBufferYUV (checkBuffer env dec)) = writeCursor (mBufferYUV dec)
     \<and> unread (mBufferYUV (checkBuffer env dec)) = unread (mBufferYUV dec)"
proof -
  consider "checkBuffer env dec = dec"
    | caps st w h where "mAppSink dec \<noteq> None"
      "gst_sample_get_caps smp = Some caps"
      "gst_caps_get_structure caps = Some st"
      "gst_structure_get_int st ''width'' = Some w"
      "gst_structure_get_int st ''height'' = Some h"
      "\<not> (sint w < 1 \<or> sint h < 1)"
    using checkBuffer_cases [of env dec] assms(1-3) by auto
  then show ?thesis
  proof cases
    case 1
    then show ?thesis by simp
  next
    case 2
    from assms(4) have "Alloc (unat (numBuffers (mOptions dec)))
                       (unat (of_nat (length gstData) :: 32 word)) True (yuv_memory env)
                       (mBufferYUV dec) = (False, mBufferYUV dec)"
      by (simp add: Alloc_def split: if_splits)
    then show ?thesis
      by (simp add: checkBuffer_reaches_alloc [OF 2(1) assms(1) 2(2) assms(2,3) 2(3-6)])
  qed
qed

lemma checkBuffer_grows:
  "published (checkBuffer env dec) = published dec \<and> mWaitEvent (checkBuffer env dec) = mWaitEvent dec
     \<and> delivered (checkBuffer env dec) = delivered dec
   \<or> published (checkBuffer env dec) = Suc (published dec)
     \<and> delivered (checkBuffer env dec) = delivered dec"
proof -
  consider "checkBuffer env dec = dec"
    | smp caps buf gstData st w h where "mAppSink dec \<noteq> None"
      "gst_app_sink_pull_sample env = Some smp"
      "gst_sample_get_caps smp = Some caps"
      "gst_sample_get_buffer smp = Some buf"
      "gst_buffer_map buf = Some gstData"
      "gst_caps_get_structure caps = Some st"
      "gst_structure_get_int st ''width'' = Some w"
      "gst_structure_get_int st ''height'' = Some h"
      "\<not> (sint w < 1 \<or> sint h < 1)"
    using checkBuffer_cases [of env dec] by blast
  then show ?thesis
  proof cases
    case 1
    then show ?thesis by simp
  next
    case 2
    show ?thesis
      unfolding checkBuffer_reaches_alloc [OF 2]
      by (simp add: Let_def published_def delivered_def split: prod.splits option.splits)
  qed
qed

lemma Capture_grows:
  assumes "Capture env output format timeout dec = Some (ok, dec')"
  shows "published dec' = published dec"
    and "\<not> pending (mWaitEvent dec) \<Longrightarrow> \<not> ok \<and> \<not> pending (mWaitEvent dec') \<and> delivered dec' = delivered dec"
    and "fst (Next_ReadLatestOnce (mBufferYUV dec)) = None \<Longrightarrow> \<not> ok \<and> delivered dec' = delivered dec"
    and "delivered dec \<le> delivered dec'"
proof -
  obtain ok1 dec1 where o: "(if \<not> mStreaming dec then Open (open_change env) dec else (True, dec)) = (ok1, dec1)"
    by (cases "(if \<not> mStreaming dec then Open (open_change env) dec else (True, dec))") 
  then have k: "mBufferYUV dec1 = mBufferYUV dec" "mWaitEvent dec1 = mWaitEvent dec"
      "published dec1 = published dec" "delivered dec1 = delivered dec"
    using Open_keeps [of "open_change env" dec] by (auto split: if_splits)
  show "published dec' = published dec"
    using assms o k(3)
    by (auto simp: Capture_def Let_def published_def Wait_def
        split: option.splits if_splits prod.splits bool.splits)
  show "\<not> ok \<and> \<not> pending (mWaitEvent dec') \<and> delivered dec' = delivered dec" if "\<not> pending (mWaitEvent dec)"
    using assms o k(2,4) that
    by (auto simp: Capture_def Let_def delivered_def Wait_def
        split: option.splits if_splits prod.splits bool.splits)
  show "\<not> ok \<and> delivered dec' = delivered dec" if "fst (Next_ReadLatestOnce (mBufferYUV dec)) = None"
    using assms o k(1,4) that
    by (auto simp: Capture_def Let_def delivered_def Wait_def
        split: option.splits if_splits prod.splits bool.splits)
  show "delivered dec \<le> delivered dec'"
    using assms o k(4)
    by (auto simp: Capture_def Let_def delivered_def Wait_def
        split: option.splits if_splits prod.splits bool.splits)
qed

lemma Capture_owes:
  assumes "Capture env output format timeout dec = Some (ok, dec')"
  shows "delivered dec' + (if pending (mWaitEvent dec') then 1 else 0)
           \<le> delivered dec + (if pending (mWaitEvent dec) then 1 else 0)"
    and "ok \<Longrightarrow> \<not> pending (mWaitEvent dec')"
proof -
  obtain ok1 dec1 where o: "(if \<not> mStreaming dec then Open (open_change env) dec else (True, dec)) = (ok1, dec1)"
    by (cases "(if \<not> mStreaming dec then Open (open_change env) dec else (True, dec))") 
  then have k: "mWaitEvent dec1 = mWaitEvent dec" "delivered dec1 = delivered dec"
    using Open_keeps [of "open_change env" dec] by (auto split: if_splits)
  show "delivered dec' + (if pending (mWaitEvent dec') then 1 else 0)
           \<le> delivered dec + (if pending (mWaitEvent dec) then 1 else 0)"
    using assms o k
    by (auto simp: Capture_def Let_def delivered_def Wait_def
        split: option.splits if_splits prod.splits bool.splits)
  show "\<not> pending (mWaitEvent dec')" if ok
    using assms o k that
    by (auto simp: Capture_def Let_def delivered_def Wait_def
        split: option.splits if_splits prod.splits bool.splits)
qed

lemma Capture_returns:
  assumes "pending (mWaitEvent dec) \<or> tmo \<noteq> TIMEOUT_INFINITE"
  shows "\<exists>ok dec'. Capture env outp fmt tmo dec = Some (ok, dec')"
proof -
  obtain ok1 dec1 where o:
    "(if \<not> mStreaming dec then Open (open_change env) dec else (True, dec)) = (ok1, dec1)"
    by (cases "(if \<not> mStreaming dec then Open (open_change env) dec else (True, dec))")
  then have k: "mWaitEvent dec1 = mWaitEvent dec"
    using Open_keeps [of "open_change env" dec] by (auto split: if_splits)
  show ?thesis
    using assms o k
    by (auto simp: Capture_def Let_def Wait_def
        split: option.splits if_splits prod.splits bool.splits)
qed

lemma step_published:
  assumes "step c dec = Some dec'"
  shows "published dec \<le> published dec'"
    and "published dec' = published dec \<Longrightarrow> \<not> pending (mWaitEvent dec) \<Longrightarrow>
         \<not> pending (mWaitEvent dec')"
    and "delivered dec + (if pending (mWaitEvent dec) then 1 else 0) \<le> published dec \<Longrightarrow>
         delivered dec' + (if pending (mWaitEvent dec') then 1 else 0) \<le> published dec'"
proof -
  have "published dec \<le> published dec'
    \<and> (published dec' = published dec \<longrightarrow> \<not> pending (mWaitEvent dec) \<longrightarrow>
         \<not> pending (mWaitEvent dec'))
    \<and> (delivered dec + (if pending (mWaitEvent dec) then 1 else 0) \<le> published dec \<longrightarrow>
         delivered dec' + (if pending (mWaitEvent dec') then 1 else 0) \<le> published dec')"
  proof (cases c)
    case (Call_Open chg)
    with assms show ?thesis by (auto simp: Open_keeps)
  next
    case (Call_Close chg)
    with assms show ?thesis by (auto simp: Close_keeps)
  next
    case (Call_Capture env outp fmt tmo)
    with assms obtain ok where
      c: "Capture env outp fmt tmo dec = Some (ok, dec')" by auto
    from Capture_grows(1,2) [OF c] Capture_owes(1) [OF c] show ?thesis
      by (auto split: if_splits)
  next
    case (On_Buffer env)
    with assms have d: "dec' = checkMsgBus (checkBuffer env dec)"
      by (simp add: onBuffer_def)
    from checkBuffer_grows [of env dec] show ?thesis
      unfolding d checkMsgBus_keeps by (auto split: if_splits)
  next
    case (On_Preroll smp)
    with assms show ?thesis
      by (auto simp: onPreroll_def checkMsgBus_keeps split: option.splits)
  next
    case On_EOS
    with assms show ?thesis
      by (auto simp: onEOS_def published_def delivered_def)
  next
    case (Bus_Post msg)
    with assms show ?thesis
      by (auto simp: published_def delivered_def)
  qed
  then show "published dec \<le> published dec'"
    and "published dec' = published dec \<Longrightarrow> \<not> pending (mWaitEvent dec) \<Longrightarrow>
         \<not> pending (mWaitEvent dec')"
    and "delivered dec + (if pending (mWaitEvent dec) then 1 else 0) \<le> published dec \<Longrightarrow>
         delivered dec' + (if pending (mWaitEvent dec') then 1 else 0) \<le> published dec'"
    by blast+
qed

lemma exec_published: "exec cs dec = Some dec' \<Longrightarrow> published dec \<le> published dec'"
proof (induction cs arbitrary: dec)
  case Nil
  then show ?case by simp
next
  case (Cons c cs)
  then obtain d where d: "step c dec = Some d" "exec cs d = Some dec'"
    by (auto split: option.splits)
  from step_published(1) [OF d(1)] Cons.IH [OF d(2)] show ?case by simp
qed

lemma exec_nothing_published:
  "exec cs dec = Some dec' \<Longrightarrow> published dec' = published dec \<Longrightarrow>
   \<not> pending (mWaitEvent dec) \<Longrightarrow> \<not> pending (mWaitEvent dec')"
proof (induction cs arbitrary: dec)
  case Nil
  then show ?case by simp
next
  case (Cons c cs)
  then obtain d where d: "step c dec = Some d" "exec cs d = Some dec'"
    by (auto split: option.splits)
  from step_published(1) [OF d(1)] exec_published [OF d(2)] Cons.prems(2)
  have e: "published d = published dec" "published dec' = published d" by simp_all
  from step_published(2) [OF d(1) e(1) Cons.prems(3)] Cons.IH [OF d(2) e(2)]
  show ?case by simp
qed

lemma exec_owes:
  "exec cs dec = Some dec' \<Longrightarrow>
   delivered dec + (if pending (mWaitEvent dec) then 1 else 0) \<le> published dec \<Longrightarrow>
   delivered dec' + (if pending (mWaitEvent dec') then 1 else 0) \<le> published dec'"
proof (induction cs arbitrary: dec)
  case Nil
  then show ?case by simp
next
  case (Cons c cs)
  then obtain d where d: "step c dec = Some d" "exec cs d = Some dec'"
    by (auto split: option.splits)
  from Cons.IH [OF d(2) step_published(3) [OF d(1) Cons.prems(2)]] show ?case .
qed

lemma Create_fresh:
  "Create api options = Some dec \<Longrightarrow>
   effects dec = [] \<and> \<not> pending (mWaitEvent dec) \<and> \<not> mStreaming dec \<and> \<not> mEOS dec
   \<and> mAppSink dec \<noteq> None"
  by (auto simp: Create_def init_def buildLaunchStr_def gstDecoder_new_def Let_def
      split: sum.splits if_splits prod.splits option.splits)

lemma Create_example: "Create example_api example_options = Some example_decoder"
  by (simp add: Create_def init_def buildLaunchStr_def example_api_def example_options_def
      example_decoder_def gstDecoder_new_def source_stages_def decoder_stage_def
      resize_stage_def show_nat.simps)

lemma resize_stage_deviceType [simp]:
  "resize_stage (opt\<lparr>deviceType := d\<rparr>) = resize_stage opt"
  by (simp add: resize_stage_def)

lemma options_self: "(opt :: videoOptions) = opt\<lparr>width := width opt, height := height opt\<rparr>"
  by simp





lemma Open_in_two_parts:
  "Open chg dec =
     (case Open_start chg dec of
        (Some r, dec') \<Rightarrow> (r, dec')
      | (None, dec') \<Rightarrow> Open_finish dec')"
  by (simp add: Open_def Open_start_def Open_finish_def Let_def split: prod.splits)

lemma Create_example_unsized:
  "Create example_api example_unsized_options = Some example_unsized_decoder"
  by (simp add: Create_def init_def buildLaunchStr_def example_api_def example_options_def
      example_unsized_options_def example_unsized_decoder_def
      example_decoder_def gstDecoder_new_def source_stages_def decoder_stage_def
      resize_stage_def)




text \<open>
  When the end-of-stream callback fires between two calls, the end of stream is terminal:
  after any further calls and callbacks run one at a time, \<^verbatim>\<open>Open\<close> and \<^verbatim>\<open>Capture\<close> return
  false and change nothing.
\<close>

lemma eos_terminal_between_calls:
  "onEOS (Some dec0) = Some dec1 \<Longrightarrow>
   \<exists>dec. exec cs dec1 = Some dec
     \<and> Open chg dec = (False, dec)
     \<and> Capture env output format timeout dec = Some (False, dec)"
proof -
  assume "onEOS (Some dec0) = Some dec1"
  then have "mEOS dec1" "\<not> mStreaming dec1"
    by (auto simp: onEOS_def)
  from exec_eos [OF this, of cs] obtain dec where
    "exec cs dec1 = Some dec" "mEOS dec" "\<not> mStreaming dec" by blast
  then show ?thesis
    by (simp add: Open_eos Capture_eos)
qed

lemmas example_defs =
  example_options_def example_api_def example_decoder_def example_sample_def
  example_frame_def example_change_def example_failed_start_def example_capture_env_def
  example_streaming_def after_def

lemmas run_defs =
  Open_def Close_def Capture_def onEOS_def onPreroll_def onBuffer_def checkBuffer_def
  gst_element_set_state_def usleep_def checkMsgBus_eq gst_structure_get_int_def
  Alloc_def Peek_Write_def Next_Write_def Next_ReadLatestOnce_def Wake_def Wait_def
  TIMEOUT_INFINITE_def RingBuffer_new_def published_def delivered_def

lemmas witness_defs =
  example_defs run_defs example_capture_def example_stale_def

lemmas race_defs =
  witness_defs Open_start_def Open_finish_def example_unsized_options_def
  example_unsized_decoder_def example_sleeping_def example_raced_def

section \<open>The claims\<close>

text \<open>
  C1. After the end-of-stream callback has fired, every later call of \<^verbatim>\<open>Open\<close> and of
  \<^verbatim>\<open>Capture\<close> is to return false without blocking on the signal. The source breaks
  this when the callback fires while a call of \<^verbatim>\<open>Open\<close> sleeps: \<^verbatim>\<open>Open\<close> tested
  \<open>mEOS\<close> before the sleep and sets \<open>mStreaming\<close> after it, so both flags end up set.
  On the engine constructed for the sample file, with a frame and the end of stream
  arriving during the sleep, the next \<^verbatim>\<open>Capture\<close> skips \<^verbatim>\<open>Open\<close> and delivers the frame,
  and the \<^verbatim>\<open>Capture\<close> after it, with the infinite timeout, never returns.
\<close>

theorem eos_during_open_leaves_streaming:
  "Create example_api example_unsized_options = Some example_unsized_decoder
   \<and> Open_start example_change example_unsized_decoder = (None, example_sleeping)
   \<and> exec [On_Buffer (example_frame 2 2 [1, 2, 3, 4, 5, 6]), On_EOS] example_sleeping
       = Some (after [On_Buffer (example_frame 2 2 [1, 2, 3, 4, 5, 6]), On_EOS]
                 example_sleeping)
   \<and> mEOS (after [On_Buffer (example_frame 2 2 [1, 2, 3, 4, 5, 6]), On_EOS] example_sleeping)
   \<and> Open_finish
        (after [On_Buffer (example_frame 2 2 [1, 2, 3, 4, 5, 6]), On_EOS] example_sleeping)
       = (True, example_raced)
   \<and> mEOS example_raced \<and> mStreaming example_raced
   \<and> Capture example_capture_env (Some 0) IMAGE_RGB8 1000 example_raced
       = Some (True, after [example_capture] example_raced)
   \<and> mEOS (after [example_capture] example_raced)
   \<and> Capture example_capture_env (Some 0) IMAGE_RGB8 TIMEOUT_INFINITE
        (after [example_capture] example_raced) = None"
proof -
  have a: "Open_start example_change example_unsized_decoder = (None, example_sleeping)"
    by (simp add: race_defs)
  have b: "exec [On_Buffer (example_frame 2 2 [1, 2, 3, 4, 5, 6]), On_EOS] example_sleeping
       = Some (after [On_Buffer (example_frame 2 2 [1, 2, 3, 4, 5, 6]), On_EOS]
                 example_sleeping)"
    "mEOS (after [On_Buffer (example_frame 2 2 [1, 2, 3, 4, 5, 6]), On_EOS] example_sleeping)"
    by (simp_all add: race_defs)
  have c: "Open_finish
        (after [On_Buffer (example_frame 2 2 [1, 2, 3, 4, 5, 6]), On_EOS] example_sleeping)
       = (True, example_raced)"
    by (simp add: example_raced_def Open_finish_def)
  have d: "mEOS example_raced" "mStreaming example_raced"
    by (simp_all add: race_defs)
  have e: "Capture example_capture_env (Some 0) IMAGE_RGB8 1000 example_raced
       = Some (True, after [example_capture] example_raced)"
    by (simp add: race_defs)
  have f: "mEOS (after [example_capture] example_raced)"
    "Capture example_capture_env (Some 0) IMAGE_RGB8 TIMEOUT_INFINITE
        (after [example_capture] example_raced) = None"
    by (simp_all add: race_defs)
  from Create_example_unsized a b c d e f show ?thesis by blast
qed

text \<open>
  C2, as amended. If \<^verbatim>\<open>Open\<close> is called while the state is Closed and the start request
  itself returns a result other than SUCCESS and ASYNC, then \<^verbatim>\<open>Open\<close> returns false and
  the state remains Closed: only the request is recorded and what the backend posted
  stays on the bus. If the request returns SUCCESS or ASYNC, \<^verbatim>\<open>Open\<close> returns true and
  sets the Streaming flag, whatever the backend posts on the status channel during the
  wait-and-poll: every message pending or posted, errors included, is drained and printed
  in order, before and after the sleep, and nothing else changes.
\<close>

theorem open_fails_on_start_result:
  "\<not> mEOS dec \<Longrightarrow> \<not> mStreaming dec \<Longrightarrow>
   (result chg \<noteq> GST_STATE_CHANGE_ASYNC \<and> result chg \<noteq> GST_STATE_CHANGE_SUCCESS \<longrightarrow>
      Open chg dec =
        (False, dec\<lparr>bus := bus dec @ posted_by_change chg,
                     effects := effects dec @ [SetState GST_STATE_PLAYING]\<rparr>))
   \<and> (result chg = GST_STATE_CHANGE_ASYNC \<or> result chg = GST_STATE_CHANGE_SUCCESS \<longrightarrow>
      Open chg dec =
        (True, dec\<lparr>mStreaming := True, bus := [],
                    effects := effects dec @ [SetState GST_STATE_PLAYING]
                      @ map Printed (bus dec @ posted_by_change chg)
                      @ [Usleep (100 * 1000)]
                      @ map Printed (posted_during_sleep chg)\<rparr>))"
  by (simp add: Open_def gst_element_set_state_def usleep_def checkMsgBus_eq)

theorem open_fails_on_start_result_witness:
  "\<not> mEOS example_decoder \<and> \<not> mStreaming example_decoder
   \<and> result (example_change\<lparr>result := GST_STATE_CHANGE_FAILURE\<rparr>) \<noteq> GST_STATE_CHANGE_ASYNC
   \<and> result (example_change\<lparr>result := GST_STATE_CHANGE_FAILURE\<rparr>) \<noteq> GST_STATE_CHANGE_SUCCESS
   \<and> fst (Open (example_change\<lparr>result := GST_STATE_CHANGE_FAILURE\<rparr>) example_decoder) = False
   \<and> \<not> mStreaming (snd (Open (example_change\<lparr>result := GST_STATE_CHANGE_FAILURE\<rparr>) example_decoder))
   \<and> effects (snd (Open (example_change\<lparr>result := GST_STATE_CHANGE_FAILURE\<rparr>) example_decoder))
       = [SetState GST_STATE_PLAYING]
   \<and> result example_failed_start = GST_STATE_CHANGE_ASYNC
   \<and> fst (Open example_failed_start example_decoder) = True
   \<and> mStreaming (snd (Open example_failed_start example_decoder))
   \<and> bus (snd (Open example_failed_start example_decoder)) = []
   \<and> effects (snd (Open example_failed_start example_decoder))
       = [SetState GST_STATE_PLAYING,
          Printed (GstMessage GST_MESSAGE_ERROR ''Internal data stream error.''),
          Usleep (100 * 1000)]"
  using open_fails_on_start_result [of example_decoder "example_change\<lparr>result := GST_STATE_CHANGE_FAILURE\<rparr>"]
    open_fails_on_start_result [of example_decoder example_failed_start]
  by (simp add: example_decoder_def example_change_def example_failed_start_def)

text \<open>
  The claim C2 as it was stated fails: the start request returns ASYNC, the backend
  posts an error on the status channel while the call runs, and \<^verbatim>\<open>Open\<close> still returns
  true with the Streaming flag set.
\<close>

theorem open_ignores_posted_error:
  "\<not> mEOS example_decoder \<and> \<not> mStreaming example_decoder
   \<and> GstMessage GST_MESSAGE_ERROR ''Internal data stream error.''
       \<in> set (posted_by_change example_failed_start)
   \<and> fst (Open example_failed_start example_decoder) = True
   \<and> mStreaming (snd (Open example_failed_start example_decoder))"
  by (simp add: example_defs run_defs)

text \<open>
  C3. A call of \<^verbatim>\<open>Capture\<close> made when the read-latest-once retrieval returns null fails
  and delivers nothing, and it does return when a wake is pending or the timeout is
  finite. After a successful \<^verbatim>\<open>Capture\<close>, as long as the calls in between publish no
  frame, a further \<^verbatim>\<open>Capture\<close> fails and delivers nothing, and it does return when its
  timeout is finite. Over every run of a constructed engine the frames delivered are at
  most the frames published.
\<close>

theorem capture_delivers_once:
  "(fst (Next_ReadLatestOnce (mBufferYUV dec)) = None \<longrightarrow>
      (\<forall>ok dec'. Capture env out fmt tmo dec = Some (ok, dec')
         \<longrightarrow> \<not> ok \<and> delivered dec' = delivered dec)
      \<and> (pending (mWaitEvent dec) \<or> tmo \<noteq> TIMEOUT_INFINITE
         \<longrightarrow> (\<exists>dec'. Capture env out fmt tmo dec = Some (False, dec'))))
   \<and> (Capture env out fmt tmo dec = Some (True, dec1) \<and>
      exec cs dec1 = Some dec2 \<and> published dec2 = published dec1 \<longrightarrow>
      (\<forall>ok dec3. Capture env2 out2 fmt2 tmo2 dec2 = Some (ok, dec3)
         \<longrightarrow> \<not> ok \<and> delivered dec3 = delivered dec2)
      \<and> (tmo2 \<noteq> TIMEOUT_INFINITE
         \<longrightarrow> (\<exists>dec3. Capture env2 out2 fmt2 tmo2 dec2 = Some (False, dec3))))
   \<and> (Create api options = Some dec0 \<and> exec cs0 dec0 = Some dec4
      \<longrightarrow> delivered dec4 \<le> published dec4)"
proof -
  have first: "\<not> ok \<and> delivered dec' = delivered dec"
    if "fst (Next_ReadLatestOnce (mBufferYUV dec)) = None"
      and "Capture env out fmt tmo dec = Some (ok, dec')" for ok dec'
    using Capture_grows(3) [OF that(2,1)] .
  have first_returns: "\<exists>dec'. Capture env out fmt tmo dec = Some (False, dec')"
    if "fst (Next_ReadLatestOnce (mBufferYUV dec)) = None"
      and "pending (mWaitEvent dec) \<or> tmo \<noteq> TIMEOUT_INFINITE"
  proof -
    from Capture_returns [OF that(2), of env out fmt] obtain ok dec' where
      c: "Capture env out fmt tmo dec = Some (ok, dec')" by blast
    from first [OF that(1) c] have "\<not> ok" by simp
    with c show ?thesis by auto
  qed
  have second: "\<not> ok \<and> delivered dec3 = delivered dec2"
    if a: "Capture env out fmt tmo dec = Some (True, dec1)"
      "exec cs dec1 = Some dec2" "published dec2 = published dec1"
      "Capture env2 out2 fmt2 tmo2 dec2 = Some (ok, dec3)" for ok dec3
  proof -
    from Capture_owes(2) [OF a(1)] have "\<not> pending (mWaitEvent dec1)" by simp
    from exec_nothing_published [OF a(2,3) this] have "\<not> pending (mWaitEvent dec2)" .
    from Capture_grows(2) [OF a(4) this] show ?thesis by simp
  qed
  have second_returns: "\<exists>dec3. Capture env2 out2 fmt2 tmo2 dec2 = Some (False, dec3)"
    if a: "Capture env out fmt tmo dec = Some (True, dec1)"
      "exec cs dec1 = Some dec2" "published dec2 = published dec1"
      and b: "tmo2 \<noteq> TIMEOUT_INFINITE"
  proof -
    from b have "pending (mWaitEvent dec2) \<or> tmo2 \<noteq> TIMEOUT_INFINITE" by simp
    from Capture_returns [OF this, of env2 out2 fmt2] obtain ok dec3 where
      c: "Capture env2 out2 fmt2 tmo2 dec2 = Some (ok, dec3)" by blast
    from second [OF a c] have "\<not> ok" by simp
    with c show ?thesis by auto
  qed
  have third: "delivered dec4 \<le> published dec4"
    if a: "Create api options = Some dec0" "exec cs0 dec0 = Some dec4"
  proof -
    from Create_fresh [OF a(1)] have
      "delivered dec0 + (if pending (mWaitEvent dec0) then 1 else 0) \<le> published dec0"
      by (simp add: delivered_def)
    from exec_owes [OF a(2) this] show ?thesis
      by (simp split: if_splits)
  qed
  from first first_returns second second_returns third show ?thesis by blast
qed

theorem capture_delivers_once_witness:
  "fst (Next_ReadLatestOnce (mBufferYUV example_stale)) = None
   \<and> pending (mWaitEvent example_stale)
   \<and> Capture example_capture_env (Some 0) IMAGE_RGB8 1000 example_stale
       = Some (False, after [example_capture] example_stale)
   \<and> delivered (after [example_capture] example_stale) = delivered example_stale
   \<and> Capture example_capture_env (Some 0) IMAGE_RGB8 1000 example_streaming
       = Some (True, after [example_capture] example_streaming)
   \<and> exec [Call_Close example_change, On_Buffer (example_frame 0 480 [1, 2, 3])]
        (after [example_capture] example_streaming)
       = Some (after [example_capture, Call_Close example_change,
                      On_Buffer (example_frame 0 480 [1, 2, 3])] example_streaming)
   \<and> published (after [example_capture, Call_Close example_change,
                      On_Buffer (example_frame 0 480 [1, 2, 3])] example_streaming)
       = published (after [example_capture] example_streaming)
   \<and> (1000 :: 64 word) \<noteq> TIMEOUT_INFINITE
   \<and> Capture example_capture_env (Some 0) IMAGE_RGB8 1000
        (after [example_capture, Call_Close example_change,
                On_Buffer (example_frame 0 480 [1, 2, 3])] example_streaming)
       = Some (False, after [example_capture, Call_Close example_change,
                 On_Buffer (example_frame 0 480 [1, 2, 3]), example_capture] example_streaming)
   \<and> delivered (after [example_capture, Call_Close example_change,
                 On_Buffer (example_frame 0 480 [1, 2, 3]), example_capture] example_streaming)
       = delivered (after [example_capture, Call_Close example_change,
                On_Buffer (example_frame 0 480 [1, 2, 3])] example_streaming)
   \<and> Create example_api example_options = Some example_decoder
   \<and> exec [Call_Open example_change, On_Buffer (example_frame 2 2 [1, 2, 3, 4, 5, 6]),
            example_capture, example_capture] example_decoder
       = Some (after [example_capture, example_capture] example_streaming)
   \<and> delivered (after [example_capture, example_capture] example_streaming)
       \<le> published (after [example_capture, example_capture] example_streaming)"
proof -
  have a1: "fst (Next_ReadLatestOnce (mBufferYUV example_stale)) = None"
    "pending (mWaitEvent example_stale)"
    by (simp_all add: witness_defs)
  have a2: "Capture example_capture_env (Some 0) IMAGE_RGB8 1000 example_stale
       = Some (False, after [example_capture] example_stale)"
    by (simp add: witness_defs)
  have b1: "Capture example_capture_env (Some 0) IMAGE_RGB8 1000 example_streaming
       = Some (True, after [example_capture] example_streaming)"
    by (simp add: witness_defs)
  have b2: "exec [Call_Close example_change, On_Buffer (example_frame 0 480 [1, 2, 3])]
        (after [example_capture] example_streaming)
       = Some (after [example_capture, Call_Close example_change,
                      On_Buffer (example_frame 0 480 [1, 2, 3])] example_streaming)"
    by (simp add: witness_defs)
  have b3: "published (after [example_capture, Call_Close example_change,
                      On_Buffer (example_frame 0 480 [1, 2, 3])] example_streaming)
       = published (after [example_capture] example_streaming)"
    by (simp add: witness_defs)
  have b4: "(1000 :: 64 word) \<noteq> TIMEOUT_INFINITE"
    "Capture example_capture_env (Some 0) IMAGE_RGB8 1000
        (after [example_capture, Call_Close example_change,
                On_Buffer (example_frame 0 480 [1, 2, 3])] example_streaming)
       = Some (False, after [example_capture, Call_Close example_change,
                 On_Buffer (example_frame 0 480 [1, 2, 3]), example_capture] example_streaming)"
    by (simp_all add: witness_defs)
  have c1: "Create example_api example_options = Some example_decoder"
    by (rule Create_example)
  have c2: "exec [Call_Open example_change, On_Buffer (example_frame 2 2 [1, 2, 3, 4, 5, 6]),
            example_capture, example_capture] example_decoder
       = Some (after [example_capture, example_capture] example_streaming)"
    by (simp add: witness_defs)
  note inst1 = capture_delivers_once
    [where dec = example_stale and env = example_capture_env and out = "Some 0"
       and fmt = IMAGE_RGB8 and tmo = 1000]
  note inst2 = capture_delivers_once
    [where dec = example_streaming and env = example_capture_env and out = "Some 0"
       and fmt = IMAGE_RGB8 and tmo = 1000
       and ?dec1.0 = "after [example_capture] example_streaming"
       and cs = "[Call_Close example_change, On_Buffer (example_frame 0 480 [1, 2, 3])]"
       and ?dec2.0 = "after [example_capture, Call_Close example_change,
                      On_Buffer (example_frame 0 480 [1, 2, 3])] example_streaming"
       and ?env2.0 = example_capture_env and ?out2.0 = "Some 0"
       and ?fmt2.0 = IMAGE_RGB8 and ?tmo2.0 = 1000
       and api = example_api and options = example_options and ?dec0.0 = example_decoder
       and ?cs0.0 = "[Call_Open example_change, On_Buffer (example_frame 2 2 [1, 2, 3, 4, 5, 6]),
            example_capture, example_capture]"
       and ?dec4.0 = "after [example_capture, example_capture] example_streaming"]
  from inst1 inst2 a1 a2 b1 b2 b3 b4 c1 c2 show ?thesis by blast
qed

text \<open>
  C4. When the frame callback finds no caps on the sample, no structure in the caps, no
  width or no height in the structure, or when the allocation of the ring buffer fails,
  the frame is dropped: no slot is published (write cursor and unread mark stay), the
  consumer is not woken (the signal stays and no call is recorded), and the Streaming and
  EndOfStream flags stay. The same holds for the whole callback \<^verbatim>\<open>onBuffer\<close>, which
  records nothing but the printing of the pending status messages.
\<close>

theorem ingest_failure_drops_frame:
  assumes "gst_app_sink_pull_sample env = Some smp"
    and "gst_sample_get_caps smp = None
       \<or> (\<exists>caps. gst_sample_get_caps smp = Some caps \<and>
            (gst_caps_get_structure caps = None
             \<or> (\<exists>st. gst_caps_get_structure caps = Some st \<and>
                  (gst_structure_get_int st ''width'' = None
                   \<or> gst_structure_get_int st ''height'' = None))))
       \<or> (\<exists>buf data. gst_sample_get_buffer smp = Some buf \<and> gst_buffer_map buf = Some data
            \<and> \<not> fst (Alloc (unat (numBuffers (mOptions dec)))
                       (unat (of_nat (length data) :: 32 word)) True (yuv_memory env)
                       (mBufferYUV dec)))"
  shows "effects (checkBuffer env dec) = effects dec
     \<and> mWaitEvent (checkBuffer env dec) = mWaitEvent dec
     \<and> writeCursor (mBufferYUV (checkBuffer env dec)) = writeCursor (mBufferYUV dec)
     \<and> unread (mBufferYUV (checkBuffer env dec)) = unread (mBufferYUV dec)
     \<and> mStreaming (checkBuffer env dec) = mStreaming dec
     \<and> mEOS (checkBuffer env dec) = mEOS dec
     \<and> (\<exists>dec'. onBuffer env (Some dec) = Some dec'
          \<and> effects dec' = effects dec @ map Printed (bus dec)
          \<and> mWaitEvent dec' = mWaitEvent dec
          \<and> writeCursor (mBufferYUV dec') = writeCursor (mBufferYUV dec)
          \<and> unread (mBufferYUV dec') = unread (mBufferYUV dec)
          \<and> mStreaming dec' = mStreaming dec
          \<and> mEOS dec' = mEOS dec)"
proof -
  have core: "effects (checkBuffer env dec) = effects dec
     \<and> bus (checkBuffer env dec) = bus dec
     \<and> mWaitEvent (checkBuffer env dec) = mWaitEvent dec
     \<and> writeCursor (mBufferYUV (checkBuffer env dec)) = writeCursor (mBufferYUV dec)
     \<and> unread (mBufferYUV (checkBuffer env dec)) = unread (mBufferYUV dec)"
    using assms(2)
  proof (elim disjE exE conjE)
    assume "gst_sample_get_caps smp = None"
    then show ?thesis by (simp add: checkBuffer_no_caps [OF assms(1)])
  next
    fix caps assume "gst_sample_get_caps smp = Some caps" "gst_caps_get_structure caps = None"
    then show ?thesis by (simp add: checkBuffer_no_structure [OF assms(1)])
  next
    fix caps st
    assume "gst_sample_get_caps smp = Some caps" "gst_caps_get_structure caps = Some st"
      "gst_structure_get_int st ''width'' = None"
    then show ?thesis by (simp add: checkBuffer_no_size [OF assms(1)])
  next
    fix caps st
    assume "gst_sample_get_caps smp = Some caps" "gst_caps_get_structure caps = Some st"
      "gst_structure_get_int st ''height'' = None"
    then show ?thesis by (simp add: checkBuffer_no_size [OF assms(1)])
  next
    fix buf data
    assume "gst_sample_get_buffer smp = Some buf" "gst_buffer_map buf = Some data"
      "\<not> fst (Alloc (unat (numBuffers (mOptions dec)))
                       (unat (of_nat (length data) :: 32 word)) True (yuv_memory env)
                       (mBufferYUV dec))"
    then show ?thesis by (rule checkBuffer_alloc_fails [OF assms(1)])
  qed
  then show ?thesis
    by (simp add: onBuffer_def checkMsgBus_eq checkBuffer_flags)
qed

theorem ingest_failure_drops_frame_witness:
  "gst_app_sink_pull_sample ((example_frame 2 2 [1, 2, 3, 4, 5, 6])\<lparr>yuv_memory := False\<rparr>)
     = Some (example_sample 2 2 [1, 2, 3, 4, 5, 6])
   \<and> gst_sample_get_buffer (example_sample 2 2 [1, 2, 3, 4, 5, 6])
       = Some \<lparr>gst_buffer_map = Some [1, 2, 3, 4, 5, 6]\<rparr>
   \<and> \<not> fst (Alloc (unat (numBuffers (mOptions example_decoder)))
              (unat (of_nat (length [1, 2, 3, 4, 5, 6 :: 8 word]) :: 32 word)) True
              (yuv_memory ((example_frame 2 2 [1, 2, 3, 4, 5, 6])\<lparr>yuv_memory := False\<rparr>))
              (mBufferYUV example_decoder))
   \<and> effects (checkBuffer ((example_frame 2 2 [1, 2, 3, 4, 5, 6])\<lparr>yuv_memory := False\<rparr>)
                example_decoder) = effects example_decoder
   \<and> mWaitEvent (checkBuffer ((example_frame 2 2 [1, 2, 3, 4, 5, 6])\<lparr>yuv_memory := False\<rparr>)
                example_decoder) = mWaitEvent example_decoder
   \<and> gst_app_sink_pull_sample
        \<lparr>gst_app_sink_pull_sample = Some \<lparr>gst_sample_get_caps = None,
           gst_sample_get_buffer = Some \<lparr>gst_buffer_map = Some [1, 2, 3]\<rparr>\<rparr>, yuv_memory = True\<rparr>
       = Some \<lparr>gst_sample_get_caps = None,
           gst_sample_get_buffer = Some \<lparr>gst_buffer_map = Some [1, 2, 3]\<rparr>\<rparr>
   \<and> gst_sample_get_caps \<lparr>gst_sample_get_caps = None,
           gst_sample_get_buffer = Some \<lparr>gst_buffer_map = Some [1, 2, 3]\<rparr>\<rparr> = None
   \<and> effects (checkBuffer
        \<lparr>gst_app_sink_pull_sample = Some \<lparr>gst_sample_get_caps = None,
           gst_sample_get_buffer = Some \<lparr>gst_buffer_map = Some [1, 2, 3]\<rparr>\<rparr>, yuv_memory = True\<rparr>
        example_streaming) = effects example_streaming
   \<and> mStreaming (checkBuffer
        \<lparr>gst_app_sink_pull_sample = Some \<lparr>gst_sample_get_caps = None,
           gst_sample_get_buffer = Some \<lparr>gst_buffer_map = Some [1, 2, 3]\<rparr>\<rparr>, yuv_memory = True\<rparr>
        example_streaming) = mStreaming example_streaming"
  using ingest_failure_drops_frame
      [of "(example_frame 2 2 [1, 2, 3, 4, 5, 6])\<lparr>yuv_memory := False\<rparr>"
          "example_sample 2 2 [1, 2, 3, 4, 5, 6]" example_decoder]
    ingest_failure_drops_frame
      [of "\<lparr>gst_app_sink_pull_sample = Some \<lparr>gst_sample_get_caps = None,
             gst_sample_get_buffer = Some \<lparr>gst_buffer_map = Some [1, 2, 3]\<rparr>\<rparr>,
            yuv_memory = True\<rparr>"
          "\<lparr>gst_sample_get_caps = None,
             gst_sample_get_buffer = Some \<lparr>gst_buffer_map = Some [1, 2, 3]\<rparr>\<rparr>"
          example_streaming]
  by (simp add: example_frame_def example_sample_def example_decoder_def
      example_options_def Alloc_def RingBuffer_new_def)

text \<open>
  C5. \<^verbatim>\<open>Close\<close> may be called any number of times. In a state that is Closed and not
  EndOfStream it changes nothing. Once EndOfStream is reached it still requests the state
  NULL from the pipeline, sleeps, and drains and prints every pending message, leaving the
  EndOfStream flag set. A second \<^verbatim>\<open>Close\<close> after a \<^verbatim>\<open>Close\<close> of a stream that has not ended
  changes nothing, and in every state a second \<^verbatim>\<open>Close\<close> leaves the members of the engine
  as the first one left them.
\<close>

theorem close_idempotent:
  "(\<not> mStreaming dec \<and> \<not> mEOS dec \<longrightarrow> Close chg dec = dec)
   \<and> (mEOS dec \<longrightarrow>
        mEOS (Close chg dec) \<and> \<not> mStreaming (Close chg dec) \<and> bus (Close chg dec) = []
        \<and> effects (Close chg dec) =
            effects dec @ [SetState GST_STATE_NULL, Usleep (250 * 1000)]
            @ map Printed (bus dec @ posted_by_change chg @ posted_during_sleep chg))
   \<and> (\<not> mEOS dec \<longrightarrow> Close chg' (Close chg dec) = Close chg dec)
   \<and> (Close chg' (Close chg dec))\<lparr>bus := [], effects := []\<rparr>
       = (Close chg dec)\<lparr>bus := [], effects := []\<rparr>"
  by (simp add: Close_def gst_element_set_state_def usleep_def checkMsgBus_eq)

theorem close_idempotent_witness:
  "\<not> mStreaming example_decoder \<and> \<not> mEOS example_decoder
   \<and> Close example_change example_decoder = example_decoder
   \<and> mEOS (example_streaming\<lparr>mEOS := True, mStreaming := False\<rparr>)
   \<and> mEOS (Close example_change (example_streaming\<lparr>mEOS := True, mStreaming := False\<rparr>))
   \<and> bus (Close example_change (example_streaming\<lparr>mEOS := True, mStreaming := False\<rparr>)) = []
   \<and> SetState GST_STATE_NULL
       \<in> set (effects (Close example_change
                  (example_streaming\<lparr>mEOS := True, mStreaming := False\<rparr>)))
   \<and> \<not> mEOS example_streaming
   \<and> Close example_failed_start (Close example_change example_streaming)
       = Close example_change example_streaming"
  using close_idempotent [of example_decoder example_change]
    close_idempotent [of "example_streaming\<lparr>mEOS := True, mStreaming := False\<rparr>" example_change]
    close_idempotent [of example_streaming example_change example_failed_start]
  by (simp add: example_defs run_defs)

text \<open>
  C6. For the protocol \<^verbatim>\<open>file\<close>, the extension \<^verbatim>\<open>mp4\<close> and the codec H264, every
  description that \<^verbatim>\<open>buildLaunchStr\<close> produces, and so the description of every engine
  that \<^verbatim>\<open>Create\<close> returns, consists, in this order, of the file source, the demuxer
  \<^verbatim>\<open>qtdemux\<close>, a queue, the parser \<^verbatim>\<open>h264parse\<close>, the decoder, the resize stage and the
  sink \<^verbatim>\<open>appsink name=mysink\<close>; with the file present a description is produced.
\<close>

theorem launch_string_file_mp4_h264:
  assumes "protocol (resource options) = ''file''"
    and "extension (resource options) = ''mp4''"
    and "codec options = CODEC_H264"
  shows "(\<forall>dec. buildLaunchStr api (gstDecoder_new options) = Inr dec \<longrightarrow>
            mLaunchStr dec =
                ''filesrc location='' @ path (resource options) @ '' ! ''
                @ ''qtdemux ! '' @ ''queue ! '' @ ''h264parse ! '' @ ''omxh264dec ! ''
                @ resize_stage options @ ''appsink name=mysink'')
     \<and> (\<forall>dec. Create api options = Some dec \<longrightarrow>
            mLaunchStr dec =
                ''filesrc location='' @ path (resource options) @ '' ! ''
                @ ''qtdemux ! '' @ ''queue ! '' @ ''h264parse ! '' @ ''omxh264dec ! ''
                @ resize_stage options @ ''appsink name=mysink'')
     \<and> (fileExists api (path (resource options)) \<longrightarrow>
            (\<exists>dec. buildLaunchStr api (gstDecoder_new options) = Inr dec))"
proof -
  have src: "source_stages api options =
      (if fileExists api (path (resource options))
       then Inr (''filesrc location='' @ path (resource options) @ '' ! '' @ ''qtdemux ! ''
           @ ''queue ! '' @ ''h264parse ! '', DEVICE_FILE)
       else Inl MissingFile)"
    using assms by (simp add: source_stages_def)
  have b: "buildLaunchStr api (gstDecoder_new options) =
      (if fileExists api (path (resource options))
       then Inr ((gstDecoder_new options)
            \<lparr>mOptions := options\<lparr>deviceType := DEVICE_FILE\<rparr>,
             mLaunchStr := ''filesrc location='' @ path (resource options) @ '' ! ''
                @ ''qtdemux ! '' @ ''queue ! '' @ ''h264parse ! '' @ ''omxh264dec ! ''
                @ resize_stage options @ ''appsink name=mysink''\<rparr>)
       else Inl MissingFile)"
    using assms(3) by (simp add: buildLaunchStr_def src decoder_stage_def gstDecoder_new_def)
  show ?thesis
    by (auto simp: b Create_def init_def Let_def
        split: if_splits option.splits prod.splits)
qed

theorem launch_string_file_mp4_h264_witness:
  "protocol (resource example_options) = ''file''
   \<and> extension (resource example_options) = ''mp4''
   \<and> codec example_options = CODEC_H264
   \<and> fileExists example_api (path (resource example_options))
   \<and> Create example_api example_options = Some example_decoder
   \<and> mLaunchStr example_decoder = ''filesrc location=/media/clip.mp4 ! qtdemux ! queue ! h264parse ! omxh264dec ! nvvidconv ! video/x-raw, width=(int)640, height=(int)480, format=(string)NV12 ! appsink name=mysink''
   \<and> (\<exists>dec. buildLaunchStr example_api (gstDecoder_new example_options) = Inr dec)"
  using launch_string_file_mp4_h264 [of example_options example_api] Create_example
  by (simp add: example_options_def example_api_def example_decoder_def)

text \<open>
  C7. For every configuration with the protocol \<^verbatim>\<open>file\<close> whose extension is not in the
  table of supported extensions, \<^verbatim>\<open>Create\<close> returns NULL: building the description fails
  with a configuration error (the missing file or the unsupported extension), and with
  the file present the error is the unsupported extension.
\<close>

theorem unsupported_extension_no_engine:
  assumes "protocol (resource options) = ''file''"
    and "extension (resource options) \<notin> set SupportedExtensions"
  shows "Create api options = None
     \<and> (\<exists>e. buildLaunchStr api (gstDecoder_new options) = Inl e
            \<and> (e = MissingFile \<or> e = UnsupportedExtension))
     \<and> (gstreamerInit api \<longrightarrow>
          (\<exists>e. init api (gstDecoder_new options) = Inl (ConfigurationError e)))
     \<and> (fileExists api (path (resource options)) \<longrightarrow>
          buildLaunchStr api (gstDecoder_new options) = Inl UnsupportedExtension)"
proof -
  have src: "source_stages api options =
      (if fileExists api (path (resource options)) then Inl UnsupportedExtension
       else Inl MissingFile)"
    using assms by (simp add: source_stages_def SupportedExtensions_def)
  have b: "buildLaunchStr api (gstDecoder_new options) =
      (if fileExists api (path (resource options)) then Inl UnsupportedExtension
       else Inl MissingFile)"
    by (simp add: buildLaunchStr_def src gstDecoder_new_def)
  show ?thesis
    by (simp add: b Create_def init_def)
qed

theorem unsupported_extension_no_engine_witness:
  "protocol (resource (example_options\<lparr>resource := (resource example_options)
       \<lparr>path := ''/media/clip.mov'', extension := ''mov''\<rparr>\<rparr>)) = ''file''
   \<and> ''mov'' \<notin> set SupportedExtensions
   \<and> Create (example_api\<lparr>fileExists := (\<lambda>p. True)\<rparr>)
        (example_options\<lparr>resource := (resource example_options)
           \<lparr>path := ''/media/clip.mov'', extension := ''mov''\<rparr>\<rparr>) = None
   \<and> buildLaunchStr (example_api\<lparr>fileExists := (\<lambda>p. True)\<rparr>)
        (gstDecoder_new (example_options\<lparr>resource := (resource example_options)
           \<lparr>path := ''/media/clip.mov'', extension := ''mov''\<rparr>\<rparr>)) = Inl UnsupportedExtension"
  using unsupported_extension_no_engine [of "example_options\<lparr>resource := (resource example_options)
           \<lparr>path := ''/media/clip.mov'', extension := ''mov''\<rparr>\<rparr>"
      "example_api\<lparr>fileExists := (\<lambda>p. True)\<rparr>"]
  by (simp add: example_options_def example_api_def SupportedExtensions_def)

text \<open>
  C8. A frame whose declared width or height is less than 1 is dropped by the frame
  callback: \<^verbatim>\<open>checkBuffer\<close> returns with the engine unchanged, so nothing is published,
  the consumer is not woken and the stored width and height stay; \<^verbatim>\<open>onBuffer\<close> then only
  polls the status channel.
\<close>

theorem nonpositive_size_dropped:
  assumes "gst_app_sink_pull_sample env = Some smp"
    and "gst_sample_get_caps smp = Some caps"
    and "gst_caps_get_structure caps = Some st"
    and "gst_structure_get_int st ''width'' = Some w"
    and "gst_structure_get_int st ''height'' = Some h"
    and "sint w < 1 \<or> sint h < 1"
  shows "checkBuffer env dec = dec \<and> onBuffer env (Some dec) = Some (checkMsgBus dec)"
  using assms by (simp add: checkBuffer_bad_size onBuffer_def)

theorem nonpositive_size_dropped_witness:
  "gst_app_sink_pull_sample (example_frame 0 480 [1, 2, 3]) = Some (example_sample 0 480 [1, 2, 3])
   \<and> gst_sample_get_caps (example_sample 0 480 [1, 2, 3])
       = Some \<lparr>gst_caps_get_structure = Some [(''width'', 0), (''height'', 480)]\<rparr>
   \<and> gst_structure_get_int [(''width'', 0), (''height'', 480)] ''width'' = Some 0
   \<and> gst_structure_get_int [(''width'', 0), (''height'', 480)] ''height'' = Some 480
   \<and> sint (0 :: 32 word) < 1
   \<and> checkBuffer (example_frame 0 480 [1, 2, 3]) example_streaming = example_streaming
   \<and> onBuffer (example_frame 0 480 [1, 2, 3]) (Some example_streaming)
       = Some (checkMsgBus example_streaming)"
  using nonpositive_size_dropped [of "example_frame 0 480 [1, 2, 3]" "example_sample 0 480 [1, 2, 3]"
      "\<lparr>gst_caps_get_structure = Some [(''width'', 0), (''height'', 480)]\<rparr>"
      "[(''width'', 0), (''height'', 480)]" 0 480 example_streaming]
  by (simp add: example_frame_def example_sample_def gst_structure_get_int_def)




text \<open>
  C10. \<^verbatim>\<open>Capture\<close> with a null output pointer returns false at once, for every state,
  format and timeout: before the state is consulted, before any implicit \<^verbatim>\<open>Open\<close> and
  before the wait, leaving the engine and the recorded calls unchanged.
\<close>

theorem capture_null_output:
  "Capture env None format timeout dec = Some (False, dec)"
  by (simp add: Capture_def)

theorem capture_null_output_witness:
  "Capture example_capture_env None IMAGE_RGB8 TIMEOUT_INFINITE example_streaming
     = Some (False, example_streaming)"
  using capture_null_output [of example_capture_env IMAGE_RGB8 TIMEOUT_INFINITE example_streaming] .

end
